theory Spec2Isabelle
  imports Complex_Main
begin

section \<open>Python values and exceptions\<close>

text \<open>
  A Python \<^verbatim>\<open>str\<close> is a sequence of code points, and not every one of them is a
  character a console can write: a JSON document may hold the escape of a lone
  surrogate, and \<^verbatim>\<open>json.loads\<close> keeps it. So a \<^verbatim>\<open>str\<close> that comes from a request is a list
  of code points. The texts the source itself writes down (keys, messages) are ASCII
  literals; \<open>py_str\<close> gives the \<^verbatim>\<open>str\<close> of such a literal.
\<close>

type_synonym unicode = "nat list"

definition py_str :: "string \<Rightarrow> unicode" where
  "py_str s = map of_char s"

text \<open>
  The values that \<^verbatim>\<open>request.json\<close> can hold are the Python images of JSON documents:
  \<^verbatim>\<open>None\<close>, \<^verbatim>\<open>bool\<close>, \<^verbatim>\<open>int\<close>, \<^verbatim>\<open>float\<close>, \<^verbatim>\<open>str\<close>, \<^verbatim>\<open>list\<close> and \<^verbatim>\<open>dict\<close>. A dict is kept as
  an association list in insertion order; a key is looked up with \<open>map_of\<close>. The same
  type describes the documents that \<^verbatim>\<open>jsonify\<close> sends back. A float is denoted by the
  number its literal is written as; the code does no arithmetic on it.
\<close>

datatype json =
    JNull
  | JBool bool
  | JInt int
  | JFloat real
  | JStr unicode
  | JArr "json list"
  | JObj "(unicode \<times> json) list"

text \<open>
  An exception is its description (\<^verbatim>\<open>str(e)\<close>) and whether its class derives from
  \<^verbatim>\<open>Exception\<close>: \<^verbatim>\<open>KeyboardInterrupt\<close> and \<^verbatim>\<open>SystemExit\<close> derive from \<^verbatim>\<open>BaseException\<close>
  only, and a clause \<^verbatim>\<open>except Exception\<close> lets them pass.
\<close>

datatype py_exception = PyExc (is_Exception: bool) (str_e: string)

fun type_name :: "json \<Rightarrow> string" where
  "type_name JNull = ''NoneType''"
| "type_name (JBool _) = ''bool''"
| "type_name (JInt _) = ''int''"
| "type_name (JFloat _) = ''float''"
| "type_name (JStr _) = ''str''"
| "type_name (JArr _) = ''list''"
| "type_name (JObj _) = ''dict''"

text \<open>A text between two apostrophes, as the messages below show names.\<close>

definition quoted :: "string \<Rightarrow> string" where
  "quoted s = [CHR 0x27] @ s @ [CHR 0x27]"

text \<open>The \<^verbatim>\<open>TypeError\<close>s of the interpreter, with the wording of CPython 3.11.\<close>

definition not_iterable :: "json \<Rightarrow> py_exception" where
  "not_iterable v = PyExc True (''argument of type '' @ quoted (type_name v) @ '' is not iterable'')"

definition not_subscriptable :: "json \<Rightarrow> py_exception" where
  "not_subscriptable v = PyExc True (quoted (type_name v) @ '' object is not subscriptable'')"

definition bad_index :: "json \<Rightarrow> py_exception" where
  "bad_index v =
     (case v of
        JStr _ \<Rightarrow> PyExc True (''string indices must be integers, not '' @ quoted ''str'')
      | _ \<Rightarrow> PyExc True ''list indices must be integers or slices, not str'')"

definition unhashable_slice :: py_exception where
  "unhashable_slice = PyExc True (''unhashable type: '' @ quoted ''slice'')"

text \<open>\<^verbatim>\<open>sub in s\<close> on two strings: \<open>sub\<close> occurs in \<open>s\<close> as a contiguous block.\<close>

fun str_contains :: "'a list \<Rightarrow> 'a list \<Rightarrow> bool" where
  "str_contains sub [] = (sub = [])"
| "str_contains sub (c # cs) = (take (length sub) (c # cs) = sub \<or> str_contains sub cs)"

text \<open>
  \<^verbatim>\<open>key in v\<close> for a literal \<open>key\<close>: key membership on a dict, element membership on a
  list, substring on a string, and a \<^verbatim>\<open>TypeError\<close> on every other value.
\<close>

fun py_in :: "string \<Rightarrow> json \<Rightarrow> py_exception + bool" where
  "py_in k (JObj fs) = Inr (map_of fs (py_str k) \<noteq> None)"
| "py_in k (JArr xs) = Inr (JStr (py_str k) \<in> set xs)"
| "py_in k (JStr s) = Inr (str_contains (py_str k) s)"
| "py_in k v = Inl (not_iterable v)"

text \<open>
  \<^verbatim>\<open>v[key]\<close> for a literal \<open>key\<close>: the value under the key on a dict (\<^verbatim>\<open>KeyError\<close> when
  there is none), a \<^verbatim>\<open>TypeError\<close> on everything else.
\<close>

fun py_getitem :: "json \<Rightarrow> string \<Rightarrow> py_exception + json" where
  "py_getitem (JObj fs) k =
     (case map_of fs (py_str k) of
        Some v \<Rightarrow> Inr v
      | None \<Rightarrow> Inl (PyExc True (quoted k)))"
| "py_getitem (JArr xs) k = Inl (bad_index (JArr xs))"
| "py_getitem (JStr s) k = Inl (bad_index (JStr s))"
| "py_getitem v k = Inl (not_subscriptable v)"

text \<open>
  \<^verbatim>\<open>v[:n]\<close>: the first \<open>n\<close> items of a string or a list. A dict takes the slice for a
  key and fails (a \<^verbatim>\<open>TypeError\<close> up to CPython 3.11, a \<^verbatim>\<open>KeyError\<close> from 3.12 on, both
  deriving from \<^verbatim>\<open>Exception\<close>); the other values are not subscriptable.
\<close>

fun py_slice_to :: "nat \<Rightarrow> json \<Rightarrow> py_exception + json" where
  "py_slice_to n (JStr s) = Inr (JStr (take n s))"
| "py_slice_to n (JArr xs) = Inr (JArr (take n xs))"
| "py_slice_to n (JObj fs) = Inl unhashable_slice"
| "py_slice_to n v = Inl (not_subscriptable v)"

section \<open>The inference endpoint (app.py)\<close>

text \<open>
  \<^verbatim>\<open>print\<close> writes to \<^verbatim>\<open>sys.stdout\<close>, which encodes the text; a code point that the
  encoding of the console (with its error handler) cannot write makes \<^verbatim>\<open>print\<close> raise
  a \<^verbatim>\<open>UnicodeEncodeError\<close>. What the handler meets of the console:
  \<^item> \<open>stdout_encodes\<close>: the code points from 128 on that it can write (the encodings
    of a console all write ASCII);
  \<^item> \<open>encode_error\<close>: the description of the \<^verbatim>\<open>UnicodeEncodeError\<close> for a text it cannot
    write;
  \<^item> \<open>repr_error\<close>: for a value that line 42 renders with \<^verbatim>\<open>repr\<close> (a list), the
    description of the \<^verbatim>\<open>UnicodeEncodeError\<close> that printing the line raises, or \<open>None\<close>
    when the line is written.
\<close>

record stdout =
  stdout_encodes :: "nat \<Rightarrow> bool"
  encode_error :: "unicode \<Rightarrow> string"
  repr_error :: "json \<Rightarrow> string option"

definition writable :: "stdout \<Rightarrow> unicode \<Rightarrow> bool" where
  "writable out t = list_all (\<lambda>c. c < 128 \<or> stdout_encodes out c) t"

text \<open>
  Line 42: the f-string puts a \<^verbatim>\<open>str\<close> between the two literals as it is, and any other
  value through \<^verbatim>\<open>repr\<close>; then the line is printed. The result is the exception that
  \<^verbatim>\<open>print\<close> raises, if any.
\<close>

definition print_received :: "stdout \<Rightarrow> json \<Rightarrow> py_exception option" where
  "print_received out first30 =
     (case first30 of
        JStr s \<Rightarrow>
          (let line = py_str ''Received image data (first 30 chars): '' @ s @ py_str ''...''
           in if writable out line then None else Some (PyExc True (encode_error out line)))
      | _ \<Rightarrow> map_option (PyExc True) (repr_error out first30))"

text \<open>
  What the handler prints is kept as a list of console lines; the line that shows the
  first 30 characters keeps the sliced value itself instead of its rendering. The
  other two lines are ASCII (the fixed detections; the description of an exception of
  the interpreter), so they are written.
\<close>

datatype console =
    Received_image_data json
  | Returning_mock_detections json
  | Error_processing_request string

type_synonym response = "json \<times> nat"

datatype outcome = Returned response | Raised py_exception

definition jsonify :: "json \<Rightarrow> json" where
  "jsonify d = d"

definition mock_detections :: json where
  "mock_detections = JArr
     [JObj [(py_str ''label'', JStr (py_str ''button'')),
            (py_str ''confidence'', JFloat 0.95),
            (py_str ''box'', JArr [JInt 100, JInt 150, JInt 200, JInt 180])],
      JObj [(py_str ''label'', JStr (py_str ''text_input'')),
            (py_str ''confidence'', JFloat 0.88),
            (py_str ''box'', JArr [JInt 300, JInt 250, JInt 450, JInt 280])],
      JObj [(py_str ''label'', JStr (py_str ''scrollbar'')),
            (py_str ''confidence'', JFloat 0.75),
            (py_str ''box'', JArr [JInt 780, JInt 50, JInt 795, JInt 500])]]"

text \<open>Lines 17 to 44: the body of the \<^verbatim>\<open>try\<close> block, given the value of the field.\<close>

definition detect_try :: "stdout \<Rightarrow> json \<Rightarrow> console list \<times> (py_exception + response)" where
  "detect_try out image_data_b64 =
     (case py_slice_to 30 image_data_b64 of
        Inl e \<Rightarrow> ([], Inl e)
      | Inr first30 \<Rightarrow>
          (case print_received out first30 of
             Some e \<Rightarrow> ([], Inl e)
           | None \<Rightarrow>
               ([Received_image_data first30, Returning_mock_detections mock_detections],
                Inr (jsonify (JObj [(py_str ''detections'', mock_detections)]), 200))))"

text \<open>
  The handler. The membership test of line 11 and the read of line 14 come before the
  \<^verbatim>\<open>try\<close>: an exception there leaves the handler. An exception of the block is caught
  when its class derives from \<^verbatim>\<open>Exception\<close>.
\<close>

definition detect_objects :: "stdout \<Rightarrow> json \<Rightarrow> console list \<times> outcome" where
  "detect_objects out request_json =
     (case py_in ''screenshot'' request_json of
        Inl e \<Rightarrow> ([], Raised e)
      | Inr False \<Rightarrow>
          ([], Returned (jsonify (JObj [(py_str ''error'',
                  JStr (py_str ''No screenshot data provided''))]), 400))
      | Inr True \<Rightarrow>
          (case py_getitem request_json ''screenshot'' of
             Inl e \<Rightarrow> ([], Raised e)
           | Inr image_data_b64 \<Rightarrow>
               (case detect_try out image_data_b64 of
                  (printed, Inr resp) \<Rightarrow> (printed, Returned resp)
                | (printed, Inl e) \<Rightarrow>
                    if is_Exception e
                    then (printed @ [Error_processing_request (str_e e)],
                          Returned (jsonify (JObj [(py_str ''error'',
                                  JStr (py_str (str_e e)))]), 500))
                    else (printed, Raised e))))"

section \<open>The training launcher (train_yolo.py)\<close>

text \<open>
  What the script reads from its surroundings: the two accelerator probes of
  \<^verbatim>\<open>torch\<close>, the directory of the script (\<^verbatim>\<open>os.path.dirname(__file__)\<close>), the working
  directory, the file system as \<^verbatim>\<open>os.path.exists\<close> sees it, and the constructor
  \<^verbatim>\<open>YOLO\<close> of the training library. A call into the library returns, raises, or never
  comes back.
\<close>

datatype 'a call_result = Returns 'a | Raises py_exception | Never_returns

record train_args =
  data :: string
  epochs :: int
  imgsz :: int
  batch :: int
  project :: string
  name :: string
  device :: string
  exist_ok :: bool

record results =
  save_dir :: string

datatype yolo_model = Model (train: "train_args \<Rightarrow> results call_result")

record environment =
  cuda_is_available :: bool
  mps_is_available :: bool
  script_dir :: string
  getcwd :: string
  path_exists :: "string \<Rightarrow> bool"
  YOLO :: "string \<Rightarrow> yolo_model call_result"

text \<open>\<^verbatim>\<open>os.path.join\<close> as \<^verbatim>\<open>posixpath\<close> defines it.\<close>

definition join_step :: "string \<Rightarrow> string \<Rightarrow> string" where
  "join_step path b =
     (if take 1 b = ''/'' then b
      else if path = [] \<or> last path = CHR ''/'' then path @ b
      else path @ ''/'' @ b)"

definition os_path_join :: "string \<Rightarrow> string list \<Rightarrow> string" where
  "os_path_join a p = foldl join_step a p"

text \<open>\<^verbatim>\<open>str.lower\<close> on the letters A to Z; every other character is left as it is.\<close>

definition lower_char :: "char \<Rightarrow> char" where
  "lower_char c =
     (case map_of (zip ''ABCDEFGHIJKLMNOPQRSTUVWXYZ'' ''abcdefghijklmnopqrstuvwxyz'') c of
        Some l \<Rightarrow> l
      | None \<Rightarrow> c)"

definition lower :: "string \<Rightarrow> string" where
  "lower s = map lower_char s"

text \<open>\<^verbatim>\<open>str\<close> of an integer, as an f-string renders it: its decimal digits.\<close>

fun decimal :: "nat \<Rightarrow> string" where
  "decimal n =
     (if n < 10 then [''0123456789'' ! n]
      else decimal (n div 10) @ [''0123456789'' ! (n mod 10)])"

definition str_int :: "int \<Rightarrow> string" where
  "str_int i = (if i < 0 then ''-'' @ decimal (nat (- i)) else decimal (nat i))"

subsection \<open>Configuration\<close>

definition DATA_YAML_PATH :: "environment \<Rightarrow> string" where
  "DATA_YAML_PATH env =
     os_path_join (script_dir env)
       [''..'', ''AutoDesktopApplication'', ''UI_Element_Dataset'', ''data.yaml'']"

definition BASE_MODEL_NAME :: string where
  "BASE_MODEL_NAME = ''yolov8n.pt''"

definition EPOCHS :: int where
  "EPOCHS = 50"

definition BATCH_SIZE :: int where
  "BATCH_SIZE = 8"

definition IMG_SIZE :: int where
  "IMG_SIZE = 640"

definition PROJECT_NAME :: string where
  "PROJECT_NAME = ''UI_Element_Detection''"

definition EXPERIMENT_NAME :: string where
  "EXPERIMENT_NAME = ''run1''"

definition DEVICE :: "environment \<Rightarrow> string" where
  "DEVICE env =
     (if cuda_is_available env then ''cuda''
      else if mps_is_available env then ''mps''
      else ''cpu'')"

subsection \<open>The launch routine\<close>

text \<open>
  A run is the list of what it does, in order: the lines it prints, the paths it tests
  for existence, and its calls into the training library (loading the base model, and
  the training itself with its arguments).
\<close>

datatype event =
    Print string
  | Check_exists string
  | Load_model string
  | Train train_args

datatype completion = Returned_None | Propagated py_exception | Blocked

text \<open>Lines 35 to 43: the configuration, one line for each value.\<close>

definition banner :: "environment \<Rightarrow> event list" where
  "banner env =
     [Print ''Starting training with the following configuration:'',
      Print (''  Data YAML: '' @ DATA_YAML_PATH env),
      Print (''  Base Model: '' @ BASE_MODEL_NAME),
      Print (''  Epochs: '' @ str_int EPOCHS),
      Print (''  Batch Size: '' @ str_int BATCH_SIZE),
      Print (''  Image Size: '' @ str_int IMG_SIZE),
      Print (''  Project: '' @ PROJECT_NAME),
      Print (''  Experiment: '' @ EXPERIMENT_NAME),
      Print (''  Device: '' @ DEVICE env)]"

text \<open>Lines 47 and 48, and lines 53 and 54: the two diagnostics of a missing file.\<close>

definition base_model_missing :: "environment \<Rightarrow> event list" where
  "base_model_missing env =
     [Print (''Error: Base model '' @ quoted BASE_MODEL_NAME
             @ '' not found in the current directory ('' @ getcwd env @ '').''),
      Print ''Please make sure the .pt file is in the same directory as this script, or update BASE_MODEL_NAME.'']"

definition data_yaml_missing :: "environment \<Rightarrow> event list" where
  "data_yaml_missing env =
     [Print (''Error: data.yaml not found at '' @ quoted (DATA_YAML_PATH env) @ ''.''),
      Print ''Please verify the DATA_YAML_PATH variable in this script.'']"

text \<open>The keyword arguments of \<^verbatim>\<open>model.train\<close>, lines 67 to 74.\<close>

definition training_call :: "environment \<Rightarrow> train_args" where
  "training_call env =
     \<lparr>data = DATA_YAML_PATH env, epochs = EPOCHS, imgsz = IMG_SIZE, batch = BATCH_SIZE,
      project = PROJECT_NAME, name = EXPERIMENT_NAME, device = DEVICE env, exist_ok = True\<rparr>"

text \<open>Lines 58 to 80: the body of the \<^verbatim>\<open>try\<close> block.\<close>

definition train_try :: "environment \<Rightarrow> event list \<times> unit call_result" where
  "train_try env =
     (case YOLO env BASE_MODEL_NAME of
        Raises e \<Rightarrow> ([Load_model BASE_MODEL_NAME], Raises e)
      | Never_returns \<Rightarrow> ([Load_model BASE_MODEL_NAME], Never_returns)
      | Returns model \<Rightarrow>
          (let started =
                 [Load_model BASE_MODEL_NAME,
                  Print (''Successfully loaded base model: '' @ BASE_MODEL_NAME),
                  Print ''Starting model training...'',
                  Train (training_call env)]
           in case train model (training_call env) of
                Raises e \<Rightarrow> (started, Raises e)
              | Never_returns \<Rightarrow> (started, Never_returns)
              | Returns res \<Rightarrow>
                  (started @
                   [Print ''Training completed!'',
                    Print (''Results saved to: '' @ save_dir res),
                    Print (''The best model is saved as: ''
                           @ os_path_join (save_dir res) [''weights'', ''best.pt'']),
                    Print (''You can now use this '' @ quoted ''best.pt''
                           @ '' model in your app.py for inference.'')],
                   Returns ())))"

text \<open>Lines 83 to 86: the handler of the \<^verbatim>\<open>except Exception\<close> clause.\<close>

definition out_of_memory :: "py_exception \<Rightarrow> bool" where
  "out_of_memory e = str_contains ''out of memory'' (lower (str_e e))"

definition memory_hint :: event where
  "memory_hint = Print ''Suggestion: Try reducing BATCH_SIZE or IMG_SIZE if you encountered an out-of-memory error.''"

definition training_error :: "py_exception \<Rightarrow> event list" where
  "training_error e =
     [Print (''An error occurred during training: '' @ str_e e),
      Print ''Please check your dataset, configuration, and environment.'']
     @ (if out_of_memory e then [memory_hint] else [])"

definition train_model :: "environment \<Rightarrow> event list \<times> completion" where
  "train_model env =
     (if \<not> path_exists env BASE_MODEL_NAME
      then (banner env @ [Check_exists BASE_MODEL_NAME] @ base_model_missing env, Returned_None)
      else if \<not> path_exists env (DATA_YAML_PATH env)
      then (banner env @ [Check_exists BASE_MODEL_NAME, Check_exists (DATA_YAML_PATH env)]
            @ data_yaml_missing env, Returned_None)
      else
        (let checked = banner env @ [Check_exists BASE_MODEL_NAME, Check_exists (DATA_YAML_PATH env)]
         in case train_try env of
              (tr, Returns _) \<Rightarrow> (checked @ tr, Returned_None)
            | (tr, Never_returns) \<Rightarrow> (checked @ tr, Blocked)
            | (tr, Raises e) \<Rightarrow>
                if is_Exception e then (checked @ tr @ training_error e, Returned_None)
                else (checked @ tr, Propagated e)))"

text \<open>The calls into the training library among the events of a run.\<close>

fun library_call :: "event \<Rightarrow> bool" where
  "library_call (Load_model _) = True"
| "library_call (Train _) = True"
| "library_call _ = False"

subsection \<open>Example surroundings\<close>

text \<open>
  A machine without accelerator where the script lies in, and is started from,
  \<^verbatim>\<open>/home/user/AutoDesktopVisionApi\<close>. The parameters say whether the base model and the
  dataset descriptor are there, and what the training does once it is called.
\<close>

definition example_dir :: string where
  "example_dir = ''/home/user/AutoDesktopVisionApi''"

definition example_data_yaml :: string where
  "example_data_yaml =
     ''/home/user/AutoDesktopVisionApi/../AutoDesktopApplication/UI_Element_Dataset/data.yaml''"

definition example_model :: "results call_result \<Rightarrow> yolo_model" where
  "example_model training = Model (\<lambda>args. training)"

definition example_env :: "bool \<Rightarrow> bool \<Rightarrow> results call_result \<Rightarrow> environment" where
  "example_env base_present data_present training =
     \<lparr>cuda_is_available = False, mps_is_available = False,
      script_dir = example_dir, getcwd = example_dir,
      path_exists = (\<lambda>p. if p = ''yolov8n.pt'' then base_present
                         else if p = example_data_yaml then data_present
                         else False),
      YOLO = (\<lambda>n. Returns (example_model training))\<rparr>"

definition cuda_oom :: py_exception where
  "cuda_oom = PyExc True ''CUDA out of memory. Tried to allocate 20.00 MiB''"



definition example_results :: results where
  "example_results = \<lparr>save_dir = ''runs/detect/UI_Element_Detection/run1''\<rparr>"


text \<open>
  A console with the encoding UTF-8 and the error handler \<^verbatim>\<open>strict\<close>. It writes every
  code point but the surrogates (U+D800 to U+DFFF). The description of its
  \<^verbatim>\<open>UnicodeEncodeError\<close> names the first run of surrogates of the text: the character
  and its position when the run is one character long, the first and the last
  position otherwise. \<^verbatim>\<open>repr\<close> shows a surrogate as an escape, so the \<^verbatim>\<open>repr\<close> of a list
  is always written.
\<close>

definition surrogate :: "nat \<Rightarrow> bool" where
  "surrogate c = (0xD800 \<le> c \<and> c \<le> 0xDFFF)"

definition hex4 :: "nat \<Rightarrow> string" where
  "hex4 n = map (\<lambda>k. ''0123456789abcdef'' ! (n div 16 ^ k mod 16)) [3, 2, 1, 0]"

definition utf8_encode_error :: "unicode \<Rightarrow> string" where
  "utf8_encode_error t =
     (let start = length (takeWhile (\<lambda>c. \<not> surrogate c) t);
          stop = start + length (takeWhile surrogate (drop start t))
      in quoted ''utf-8'' @ '' codec can'' @ [CHR 0x27] @ ''t encode ''
         @ (if stop = start + 1
            then ''character '' @ quoted ([CHR 0x5C] @ ''u'' @ hex4 (t ! start))
                 @ '' in position '' @ decimal start
            else ''characters in position '' @ decimal start @ ''-'' @ decimal (stop - 1))
         @ '': surrogates not allowed'')"

definition utf8_stdout :: stdout where
  "utf8_stdout =
     \<lparr>stdout_encodes = (\<lambda>c. \<not> surrogate c),
      encode_error = utf8_encode_error,
      repr_error = (\<lambda>v. None)\<rparr>"

section \<open>Properties of the inference endpoint\<close>

subsection \<open>Strings and the console\<close>

lemma py_str_eq_iff [simp]: "py_str a = py_str b \<longleftrightarrow> a = b"
proof
  assume "py_str a = py_str b"
  then have "map (of_char :: char \<Rightarrow> nat) a = map of_char b"
    by (simp add: py_str_def)
  moreover have "inj (of_char :: char \<Rightarrow> nat)"
    by (rule injI) simp
  ultimately show "a = b"
    by (simp add: inj_map_eq_map)
qed simp

lemma writable_append [simp]: "writable out (a @ b) \<longleftrightarrow> writable out a \<and> writable out b"
  by (simp add: writable_def)

lemma writable_Nil [simp]: "writable out []"
  by (simp add: writable_def)

lemma writable_ascii: "list_all (\<lambda>c. c < 128) s \<Longrightarrow> writable out s"
  by (induction s) (simp_all add: writable_def)

lemma writable_take: "writable out s \<Longrightarrow> writable out (take n s)"
  unfolding writable_def list_all_iff by (auto dest: in_set_takeD)

lemma writable_literals:
  "writable out (py_str ''Received image data (first 30 chars): '')"
  "writable out (py_str ''...'')"
  by (rule writable_ascii, simp add: py_str_def)+

lemma print_received_str:
  "print_received out (JStr s) =
     (if writable out s then None
      else Some (PyExc True (encode_error out
             (py_str ''Received image data (first 30 chars): '' @ s @ py_str ''...''))))"
  by (simp add: print_received_def Let_def writable_literals)

lemma py_slice_to_is_Exception: "py_slice_to n v = Inl e \<Longrightarrow> is_Exception e"
  by (cases v) (auto simp: unhashable_slice_def not_subscriptable_def)

lemma print_received_is_Exception: "print_received out v = Some e \<Longrightarrow> is_Exception e"
  by (cases v) (auto simp: print_received_def Let_def split: if_splits)

lemma detect_try_is_Exception: "snd (detect_try out v) = Inl e \<Longrightarrow> is_Exception e"
  by (auto simp: detect_try_def split: sum.splits option.splits
      dest: py_slice_to_is_Exception print_received_is_Exception)

subsection \<open>Responses\<close>

text \<open>
  A body on which the membership test of line 11 is defined and false (an object
  without the key, but also a list without the element or a string without the
  substring) gets the response of the missing field.
\<close>

lemma detect_objects_not_in_body:
  "py_in ''screenshot'' body = Inr False \<Longrightarrow>
   detect_objects out body =
     ([], Returned (JObj [(py_str ''error'',
            JStr (py_str ''No screenshot data provided''))], 400))"
  by (simp add: detect_objects_def jsonify_def)

text \<open>
  A string whose first 30 characters the console cannot write makes the \<^verbatim>\<open>print\<close> of
  line 42 raise inside the \<^verbatim>\<open>try\<close> block; the response is the status 500 with the
  description of the \<^verbatim>\<open>UnicodeEncodeError\<close>.
\<close>

lemma detect_objects_unwritable_screenshot:
  assumes "map_of fs (py_str ''screenshot'') = Some (JStr s)"
    and "\<not> writable out (take 30 s)"
  shows "snd (detect_objects out (JObj fs)) =
           Returned (JObj [(py_str ''error'', JStr (py_str (encode_error out
             (py_str ''Received image data (first 30 chars): '' @ take 30 s @ py_str ''...''))))],
             500)"
  using assms
  by (simp add: detect_objects_def detect_try_def print_received_str jsonify_def)

text \<open>
  C1, as the claim states it, fails: not every string gets the status 200. A string
  that holds a lone surrogate (JSON can carry one as an escape) cannot be written by a
  console with the encoding UTF-8; the \<^verbatim>\<open>print\<close> of line 42 raises, the \<^verbatim>\<open>except\<close> clause
  catches it, and the response is the status 500 with the description of the fault.
\<close>

theorem detect_objects_surrogate_screenshot:
  "map_of [(py_str ''screenshot'', JStr [0xD800])] (py_str ''screenshot'') = Some (JStr [0xD800])
   \<and> snd (detect_objects utf8_stdout (JObj [(py_str ''screenshot'', JStr [0xD800])])) =
       Returned (JObj [(py_str ''error'', JStr (py_str
         (quoted ''utf-8'' @ '' codec can'' @ [CHR 0x27] @ ''t encode character ''
          @ quoted ([CHR 0x5C] @ ''ud800'') @ '' in position 38: surrogates not allowed'')))],
         500)"
proof -
  have a: "map_of [(py_str ''screenshot'', JStr [0xD800])] (py_str ''screenshot'')
             = Some (JStr [0xD800])"
    by simp
  have b: "\<not> writable utf8_stdout (take 30 [0xD800])"
    by (simp add: writable_def utf8_stdout_def surrogate_def)
  have c: "encode_error utf8_stdout
             (py_str ''Received image data (first 30 chars): '' @ take 30 [0xD800] @ py_str ''...'')
           = quoted ''utf-8'' @ '' codec can'' @ [CHR 0x27] @ ''t encode character ''
             @ quoted ([CHR 0x5C] @ ''ud800'') @ '' in position 38: surrogates not allowed''"
    by (simp add: utf8_stdout_def utf8_encode_error_def py_str_def surrogate_def Let_def
        hex4_def quoted_def)
  have d: "snd (detect_objects utf8_stdout (JObj [(py_str ''screenshot'', JStr [0xD800])])) =
       Returned (JObj [(py_str ''error'', JStr (py_str
         (quoted ''utf-8'' @ '' codec can'' @ [CHR 0x27] @ ''t encode character ''
          @ quoted ([CHR 0x5C] @ ''ud800'') @ '' in position 38: surrogates not allowed'')))],
         500)"
    unfolding detect_objects_unwritable_screenshot [OF a b] c by (rule refl)
  show ?thesis
    using a d by blast
qed

text \<open>
  C1, amended. When the body of a POST /detect request is an object whose field
  \<open>screenshot\<close> holds a string whose first 30 characters the console can write
  (whatever the string else: empty, not base64), the handler returns status 200 and
  the object whose \<open>detections\<close> are the three fixed entries: button 0.95
  [100,150,200,180], text_input 0.88 [300,250,450,280], scrollbar 0.75
  [780,50,795,500]. Two such requests get the same response.
\<close>

theorem detect_objects_screenshot_string:
  assumes "map_of fs (py_str ''screenshot'') = Some (JStr s)"
    and "writable out (take 30 s)"
    and "map_of fs' (py_str ''screenshot'') = Some (JStr s')"
    and "writable out (take 30 s')"
  shows "snd (detect_objects out (JObj fs)) =
           Returned (JObj [(py_str ''detections'', JArr
             [JObj [(py_str ''label'', JStr (py_str ''button'')),
                    (py_str ''confidence'', JFloat 0.95),
                    (py_str ''box'', JArr [JInt 100, JInt 150, JInt 200, JInt 180])],
              JObj [(py_str ''label'', JStr (py_str ''text_input'')),
                    (py_str ''confidence'', JFloat 0.88),
                    (py_str ''box'', JArr [JInt 300, JInt 250, JInt 450, JInt 280])],
              JObj [(py_str ''label'', JStr (py_str ''scrollbar'')),
                    (py_str ''confidence'', JFloat 0.75),
                    (py_str ''box'', JArr [JInt 780, JInt 50, JInt 795, JInt 500])]])], 200)
       \<and> snd (detect_objects out (JObj fs')) = snd (detect_objects out (JObj fs))"
  using assms
  by (simp add: detect_objects_def detect_try_def print_received_str jsonify_def
      mock_detections_def)

theorem detect_objects_screenshot_string_witness:
  "map_of [(py_str ''screenshot'', JStr (py_str ''AAAA''))] (py_str ''screenshot'')
     = Some (JStr (py_str ''AAAA''))
   \<and> writable utf8_stdout (take 30 (py_str ''AAAA''))
   \<and> map_of [(py_str ''width'', JInt 800), (py_str ''screenshot'', JStr [])]
         (py_str ''screenshot'') = Some (JStr [])
   \<and> writable utf8_stdout (take 30 [])
   \<and> snd (detect_objects utf8_stdout (JObj [(py_str ''screenshot'', JStr (py_str ''AAAA''))])) =
           Returned (JObj [(py_str ''detections'', JArr
             [JObj [(py_str ''label'', JStr (py_str ''button'')),
                    (py_str ''confidence'', JFloat 0.95),
                    (py_str ''box'', JArr [JInt 100, JInt 150, JInt 200, JInt 180])],
              JObj [(py_str ''label'', JStr (py_str ''text_input'')),
                    (py_str ''confidence'', JFloat 0.88),
                    (py_str ''box'', JArr [JInt 300, JInt 250, JInt 450, JInt 280])],
              JObj [(py_str ''label'', JStr (py_str ''scrollbar'')),
                    (py_str ''confidence'', JFloat 0.75),
                    (py_str ''box'', JArr [JInt 780, JInt 50, JInt 795, JInt 500])]])], 200)
   \<and> snd (detect_objects utf8_stdout
            (JObj [(py_str ''width'', JInt 800), (py_str ''screenshot'', JStr [])])) =
       snd (detect_objects utf8_stdout (JObj [(py_str ''screenshot'', JStr (py_str ''AAAA''))]))"
proof -
  have a: "map_of [(py_str ''screenshot'', JStr (py_str ''AAAA''))] (py_str ''screenshot'')
             = Some (JStr (py_str ''AAAA''))"
    by simp
  have b: "writable utf8_stdout (take 30 (py_str ''AAAA''))"
    by (rule writable_take, rule writable_ascii) (simp add: py_str_def)
  have c: "map_of [(py_str ''width'', JInt 800), (py_str ''screenshot'', JStr [])]
             (py_str ''screenshot'') = Some (JStr [])"
    by simp
  have d: "writable utf8_stdout (take 30 [])"
    by simp
  show ?thesis
    using a b c d detect_objects_screenshot_string [OF a b c d] by blast
qed

text \<open>
  Every console writes ASCII, so a string of ASCII characters, such as base64 text or
  the empty string, gets the fixed detections on every console.
\<close>

lemma detect_objects_ascii_screenshot:
  assumes "map_of fs (py_str ''screenshot'') = Some (JStr s)"
    and "list_all (\<lambda>c. c < 128) s"
  shows "snd (detect_objects out (JObj fs)) =
           Returned (JObj [(py_str ''detections'', mock_detections)], 200)"
proof -
  have "writable out (take 30 s)"
    using assms(2) by (intro writable_take writable_ascii)
  with assms(1) show ?thesis
    by (simp add: detect_objects_def detect_try_def print_received_str jsonify_def)
qed

text \<open>
  C2, as the claim states it, fails: a JSON body need not be an object. The body \<open>5\<close>
  does not contain the field, but the membership test of line 11 raises a \<^verbatim>\<open>TypeError\<close>
  on it, before the \<^verbatim>\<open>try\<close> block; the handler builds no response with status 400.
\<close>

theorem detect_objects_number_body:
  "snd (detect_objects utf8_stdout (JInt 5)) = Raised (not_iterable (JInt 5))
   \<and> snd (detect_objects utf8_stdout (JInt 5))
       \<noteq> Returned (JObj [(py_str ''error'',
              JStr (py_str ''No screenshot data provided''))], 400)"
  by (simp add: detect_objects_def)

text \<open>
  C2, amended. When the body of a POST /detect request is an object without the field
  \<open>screenshot\<close>, whatever its other fields, the handler returns status 400 and the
  body \<open>{"error": "No screenshot data provided"}\<close>; it prints nothing.
\<close>

theorem detect_objects_missing_screenshot:
  "map_of fs (py_str ''screenshot'') = None \<Longrightarrow>
   detect_objects out (JObj fs) =
     ([], Returned (JObj [(py_str ''error'',
            JStr (py_str ''No screenshot data provided''))], 400))"
  by (simp add: detect_objects_def jsonify_def)

theorem detect_objects_missing_screenshot_witness:
  "map_of [(py_str ''image'', JStr (py_str ''AAAA'')), (py_str ''width'', JInt 800)]
      (py_str ''screenshot'') = None
   \<and> detect_objects utf8_stdout
         (JObj [(py_str ''image'', JStr (py_str ''AAAA'')), (py_str ''width'', JInt 800)]) =
     ([], Returned (JObj [(py_str ''error'',
            JStr (py_str ''No screenshot data provided''))], 400))"
proof -
  have a: "map_of [(py_str ''image'', JStr (py_str ''AAAA'')), (py_str ''width'', JInt 800)]
             (py_str ''screenshot'') = None"
    by simp
  show ?thesis
    using a detect_objects_missing_screenshot [OF a] by blast
qed

text \<open>
  C8, as the claim states it, fails: the membership test of line 11 stands before the
  \<^verbatim>\<open>try\<close> block. On the body \<open>null\<close> it raises a \<^verbatim>\<open>TypeError\<close> that leaves the handler;
  no response with status 500 and the description is built.
\<close>

theorem detect_objects_fault_escapes:
  "snd (detect_objects utf8_stdout JNull) = Raised (not_iterable JNull)
   \<and> snd (detect_objects utf8_stdout JNull)
       \<noteq> Returned (JObj [(py_str ''error'',
              JStr (py_str (str_e (not_iterable JNull))))], 500)"
  by (simp add: detect_objects_def)

text \<open>
  C8, amended. When the body of a POST /detect request is an object, the handler
  returns a response, so no fault leaves it; and a fault raised inside the \<^verbatim>\<open>try\<close>
  block, that is while the value of the field is processed, is printed and reported
  as status 500 with the body \<open>{"error": description of the fault}\<close>.
\<close>

theorem detect_objects_try_fault_reported:
  "(\<exists>resp. snd (detect_objects out (JObj fs)) = Returned resp)
   \<and> (map_of fs (py_str ''screenshot'') = Some v \<longrightarrow> snd (detect_try out v) = Inl e \<longrightarrow>
        detect_objects out (JObj fs) =
          (fst (detect_try out v) @ [Error_processing_request (str_e e)],
           Returned (JObj [(py_str ''error'', JStr (py_str (str_e e)))], 500)))"
proof
  show "\<exists>resp. snd (detect_objects out (JObj fs)) = Returned resp"
  proof (cases "map_of fs (py_str ''screenshot'')")
    case None
    then show ?thesis by (simp add: detect_objects_def)
  next
    case (Some w)
    obtain printed r where dt: "detect_try out w = (printed, r)"
      by (cases "detect_try out w")
    show ?thesis
    proof (cases r)
      case (Inl x)
      with dt have "is_Exception x"
        using detect_try_is_Exception [of out w x] by simp
      with Some dt Inl show ?thesis by (simp add: detect_objects_def)
    next
      case (Inr resp)
      with Some dt show ?thesis by (simp add: detect_objects_def)
    qed
  qed
next
  show "map_of fs (py_str ''screenshot'') = Some v \<longrightarrow> snd (detect_try out v) = Inl e \<longrightarrow>
        detect_objects out (JObj fs) =
          (fst (detect_try out v) @ [Error_processing_request (str_e e)],
           Returned (JObj [(py_str ''error'', JStr (py_str (str_e e)))], 500))"
    using detect_try_is_Exception [of out v e]
    by (auto simp: detect_objects_def jsonify_def split: prod.splits)
qed

theorem detect_objects_try_fault_reported_witness:
  "map_of [(py_str ''screenshot'', JNull)] (py_str ''screenshot'') = Some JNull
   \<and> snd (detect_try utf8_stdout JNull) = Inl (not_subscriptable JNull)
   \<and> (\<exists>resp. snd (detect_objects utf8_stdout (JObj [(py_str ''screenshot'', JNull)]))
          = Returned resp)
   \<and> detect_objects utf8_stdout (JObj [(py_str ''screenshot'', JNull)]) =
       ([Error_processing_request (quoted ''NoneType'' @ '' object is not subscriptable'')],
        Returned (JObj [(py_str ''error'',
          JStr (py_str (quoted ''NoneType'' @ '' object is not subscriptable'')))], 500))"
proof -
  have a: "map_of [(py_str ''screenshot'', JNull)] (py_str ''screenshot'') = Some JNull"
    by simp
  have b: "snd (detect_try utf8_stdout JNull) = Inl (not_subscriptable JNull)"
    by (simp add: detect_try_def)
  have c: "fst (detect_try utf8_stdout JNull) = []"
    by (simp add: detect_try_def)
  have d: "str_e (not_subscriptable JNull) = quoted ''NoneType'' @ '' object is not subscriptable''"
    by (simp add: not_subscriptable_def)
  from a b
    detect_objects_try_fault_reported
      [of utf8_stdout "[(py_str ''screenshot'', JNull)]" JNull "not_subscriptable JNull"]
  have e: "\<exists>resp. snd (detect_objects utf8_stdout (JObj [(py_str ''screenshot'', JNull)]))
             = Returned resp"
    and f: "detect_objects utf8_stdout (JObj [(py_str ''screenshot'', JNull)]) =
          (fst (detect_try utf8_stdout JNull)
           @ [Error_processing_request (str_e (not_subscriptable JNull))],
           Returned (JObj [(py_str ''error'',
             JStr (py_str (str_e (not_subscriptable JNull))))], 500))"
    by blast+
  have g: "detect_objects utf8_stdout (JObj [(py_str ''screenshot'', JNull)]) =
       ([Error_processing_request (quoted ''NoneType'' @ '' object is not subscriptable'')],
        Returned (JObj [(py_str ''error'',
          JStr (py_str (quoted ''NoneType'' @ '' object is not subscriptable'')))], 500))"
    using f unfolding c d by simp
  show ?thesis
    using a b e g by blast
qed

text \<open>
  C10. When the body of a POST /detect request is an object whose field \<open>screenshot\<close>
  holds a value that is neither a string nor a list (a number, a boolean, \<open>null\<close>, an
  object), the slice of line 42 raises before the response is built: the handler
  returns status 500 with the body \<open>{"error": description of the fault}\<close>, and not the
  fixed detections.
\<close>

theorem detect_objects_unsliceable_screenshot:
  assumes "map_of fs (py_str ''screenshot'') = Some v"
    and "\<forall>s. v \<noteq> JStr s" and "\<forall>xs. v \<noteq> JArr xs"
  shows "\<exists>e. py_slice_to 30 v = Inl e
           \<and> detect_objects out (JObj fs) =
               ([Error_processing_request (str_e e)],
                Returned (JObj [(py_str ''error'', JStr (py_str (str_e e)))], 500))
           \<and> snd (detect_objects out (JObj fs))
               \<noteq> Returned (JObj [(py_str ''detections'', mock_detections)], 200)"
  using assms
  by (cases v) (simp_all add: detect_objects_def detect_try_def jsonify_def
      unhashable_slice_def not_subscriptable_def)

theorem detect_objects_unsliceable_screenshot_witness:
  "map_of [(py_str ''screenshot'', JInt 12345)] (py_str ''screenshot'') = Some (JInt 12345)
   \<and> (\<forall>s. JInt 12345 \<noteq> JStr s) \<and> (\<forall>xs. JInt 12345 \<noteq> JArr xs)
   \<and> (\<exists>e. py_slice_to 30 (JInt 12345) = Inl e
           \<and> detect_objects utf8_stdout (JObj [(py_str ''screenshot'', JInt 12345)]) =
               ([Error_processing_request (str_e e)],
                Returned (JObj [(py_str ''error'', JStr (py_str (str_e e)))], 500))
           \<and> snd (detect_objects utf8_stdout (JObj [(py_str ''screenshot'', JInt 12345)]))
               \<noteq> Returned (JObj [(py_str ''detections'', mock_detections)], 200))"
proof -
  have a: "map_of [(py_str ''screenshot'', JInt 12345)] (py_str ''screenshot'')
             = Some (JInt 12345)"
    by simp
  have b: "\<forall>s. JInt 12345 \<noteq> JStr s" and c: "\<forall>xs. JInt 12345 \<noteq> JArr xs"
    by simp_all
  show ?thesis
    using a b c detect_objects_unsliceable_screenshot [OF a b c, of utf8_stdout] by blast
qed

section \<open>Properties of the training launcher\<close>

subsection \<open>Paths and events\<close>

lemma DATA_YAML_PATH_last: "last (DATA_YAML_PATH env) = CHR ''l''"
  by (simp add: DATA_YAML_PATH_def os_path_join_def join_step_def)

lemma DATA_YAML_PATH_not_BASE_MODEL_NAME: "DATA_YAML_PATH env \<noteq> BASE_MODEL_NAME"
proof
  assume "DATA_YAML_PATH env = BASE_MODEL_NAME"
  then have "last (DATA_YAML_PATH env) = last BASE_MODEL_NAME" by simp
  then show False by (simp add: DATA_YAML_PATH_last BASE_MODEL_NAME_def)
qed

lemma no_call_banner: "filter library_call (banner env) = []"
  by (simp add: banner_def)

lemma no_call_base_model_missing: "filter library_call (base_model_missing env) = []"
  by (simp add: base_model_missing_def)

lemma no_call_data_yaml_missing: "filter library_call (data_yaml_missing env) = []"
  by (simp add: data_yaml_missing_def)

lemma Train_not_in_banner: "Train a \<notin> set (banner env)"
  by (simp add: banner_def)

lemma Train_not_in_training_error: "Train a \<notin> set (training_error e)"
  by (simp add: training_error_def memory_hint_def)

subsection \<open>The three ways through the two checks\<close>

lemma train_model_no_base:
  "\<not> path_exists env BASE_MODEL_NAME \<Longrightarrow>
   train_model env =
     (banner env @ [Check_exists BASE_MODEL_NAME] @ base_model_missing env, Returned_None)"
  by (simp add: train_model_def)

lemma train_model_no_data:
  "path_exists env BASE_MODEL_NAME \<Longrightarrow> \<not> path_exists env (DATA_YAML_PATH env) \<Longrightarrow>
   train_model env =
     (banner env @ [Check_exists BASE_MODEL_NAME, Check_exists (DATA_YAML_PATH env)]
      @ data_yaml_missing env, Returned_None)"
  by (simp add: train_model_def)

lemma train_model_checked:
  assumes "path_exists env BASE_MODEL_NAME" and "path_exists env (DATA_YAML_PATH env)"
  shows "\<exists>post. fst (train_model env) =
           banner env @ [Check_exists BASE_MODEL_NAME, Check_exists (DATA_YAML_PATH env)]
           @ fst (train_try env) @ post \<and> (\<forall>a. Train a \<notin> set post)"
  using assms Train_not_in_training_error
  by (auto simp: train_model_def Let_def split: prod.splits call_result.splits)

lemma train_try_Train:
  assumes "Train a \<in> set (fst (train_try env))"
  shows "a = training_call env \<and>
    (\<exists>rest. fst (train_try env) =
      [Load_model BASE_MODEL_NAME,
       Print (''Successfully loaded base model: '' @ BASE_MODEL_NAME),
       Print ''Starting model training...'',
       Train (training_call env)] @ rest)"
  using assms
  by (auto simp: train_try_def Let_def split: call_result.splits)


text \<open>An exception of the constructor \<^verbatim>\<open>YOLO\<close> is handled as one of the training is.\<close>

lemma train_model_load_exception:
  assumes "path_exists env BASE_MODEL_NAME" and "path_exists env (DATA_YAML_PATH env)"
    and "YOLO env BASE_MODEL_NAME = Raises e"
    and "is_Exception e"
  shows "train_model env =
           (banner env @
            [Check_exists BASE_MODEL_NAME, Check_exists (DATA_YAML_PATH env),
             Load_model BASE_MODEL_NAME] @ training_error e, Returned_None)"
  using assms by (simp add: train_model_def train_try_def)

subsection \<open>The example surroundings, evaluated\<close>

lemma example_DATA_YAML_PATH: "DATA_YAML_PATH (example_env b d t) = example_data_yaml"
  by (simp add: DATA_YAML_PATH_def os_path_join_def join_step_def example_env_def
      example_dir_def example_data_yaml_def)

lemma example_path_exists:
  "path_exists (example_env b d t) BASE_MODEL_NAME = b"
  "path_exists (example_env b d t) example_data_yaml = d"
  by (simp_all add: example_env_def BASE_MODEL_NAME_def example_data_yaml_def)

lemma example_YOLO:
  "YOLO (example_env b d t) n = Returns (example_model t)"
  "train (example_model t) a = t"
  by (simp_all add: example_env_def example_model_def)

lemma example_banner:
  "banner (example_env b d t) =
     [Print ''Starting training with the following configuration:'',
      Print ''  Data YAML: /home/user/AutoDesktopVisionApi/../AutoDesktopApplication/UI_Element_Dataset/data.yaml'',
      Print ''  Base Model: yolov8n.pt'',
      Print ''  Epochs: 50'',
      Print ''  Batch Size: 8'',
      Print ''  Image Size: 640'',
      Print ''  Project: UI_Element_Detection'',
      Print ''  Experiment: run1'',
      Print ''  Device: cpu'']"
proof -
  have "DEVICE (example_env b d t) = ''cpu''"
    by (simp add: DEVICE_def example_env_def)
  moreover have "str_int EPOCHS = ''50''" "str_int BATCH_SIZE = ''8''" "str_int IMG_SIZE = ''640''"
    by (simp_all add: str_int_def EPOCHS_def BATCH_SIZE_def IMG_SIZE_def)
  ultimately show ?thesis
    by (simp add: banner_def example_DATA_YAML_PATH example_data_yaml_def BASE_MODEL_NAME_def
        PROJECT_NAME_def EXPERIMENT_NAME_def)
qed


subsection \<open>The claims\<close>

text \<open>
  C3, as the claim states it, fails: the report of the missing dataset descriptor
  depends on the base model. Where neither file exists, the run ends at the first
  check, and neither line of the dataset diagnostic is printed.
\<close>

theorem train_model_data_yaml_unreported:
  "\<not> path_exists (example_env False False Never_returns)
        (DATA_YAML_PATH (example_env False False Never_returns))
   \<and> Print (''Error: data.yaml not found at '' @ quoted example_data_yaml @ ''.'')
        \<notin> set (fst (train_model (example_env False False Never_returns)))
   \<and> set (data_yaml_missing (example_env False False Never_returns))
        \<inter> set (fst (train_model (example_env False False Never_returns))) = {}"
proof -
  let ?E = "example_env False False Never_returns"
  have a: "\<not> path_exists ?E BASE_MODEL_NAME"
    by (simp add: example_path_exists)
  have b: "\<not> path_exists ?E (DATA_YAML_PATH ?E)"
    by (simp add: example_DATA_YAML_PATH example_path_exists)
  have run: "fst (train_model ?E) = banner ?E @ [Check_exists BASE_MODEL_NAME] @ base_model_missing ?E"
    by (simp add: train_model_no_base [OF a])
  have c: "Print (''Error: data.yaml not found at '' @ quoted example_data_yaml @ ''.'')
              \<notin> set (fst (train_model ?E))"
    unfolding run by (simp add: example_banner base_model_missing_def)
  have d: "set (data_yaml_missing ?E) \<inter> set (fst (train_model ?E)) = {}"
    unfolding run by (simp add: example_banner base_model_missing_def data_yaml_missing_def)
  show ?thesis
    using b c d by blast
qed

text \<open>
  C3, amended. If the dataset descriptor does not exist at its resolved path,
  \<open>train_model\<close> makes no call into the training library and returns, whether the
  base model is there or not; if the base model is there, the run prints the
  diagnostic of the missing dataset descriptor, with the resolved path.
\<close>

theorem train_model_data_yaml_missing:
  assumes "\<not> path_exists env (DATA_YAML_PATH env)"
  shows "filter library_call (fst (train_model env)) = []
         \<and> snd (train_model env) = Returned_None
         \<and> (path_exists env BASE_MODEL_NAME \<longrightarrow>
              fst (train_model env) =
                banner env @
                [Check_exists BASE_MODEL_NAME, Check_exists (DATA_YAML_PATH env),
                 Print (''Error: data.yaml not found at '' @ quoted (DATA_YAML_PATH env) @ ''.''),
                 Print ''Please verify the DATA_YAML_PATH variable in this script.''])"
proof (cases "path_exists env BASE_MODEL_NAME")
  case True
  with assms show ?thesis
    by (simp add: train_model_no_data no_call_banner data_yaml_missing_def)
next
  case False
  then show ?thesis
    by (simp add: train_model_no_base no_call_banner no_call_base_model_missing)
qed

theorem train_model_data_yaml_missing_witness:
  "\<not> path_exists (example_env True False Never_returns)
        (DATA_YAML_PATH (example_env True False Never_returns))
   \<and> path_exists (example_env True False Never_returns) BASE_MODEL_NAME
   \<and> filter library_call (fst (train_model (example_env True False Never_returns))) = []
   \<and> train_model (example_env True False Never_returns) =
       (banner (example_env True False Never_returns) @
        [Check_exists ''yolov8n.pt'', Check_exists example_data_yaml,
         Print (''Error: data.yaml not found at '' @ quoted example_data_yaml @ ''.''),
         Print ''Please verify the DATA_YAML_PATH variable in this script.''],
        Returned_None)"
proof -
  have a: "\<not> path_exists (example_env True False Never_returns)
             (DATA_YAML_PATH (example_env True False Never_returns))"
    by (simp add: example_DATA_YAML_PATH example_path_exists)
  have b: "path_exists (example_env True False Never_returns) BASE_MODEL_NAME"
    by (simp add: example_path_exists)
  from b train_model_data_yaml_missing [OF a]
  have c: "filter library_call (fst (train_model (example_env True False Never_returns))) = []"
    and d: "snd (train_model (example_env True False Never_returns)) = Returned_None"
    and e: "fst (train_model (example_env True False Never_returns)) =
              banner (example_env True False Never_returns) @
              [Check_exists BASE_MODEL_NAME,
               Check_exists (DATA_YAML_PATH (example_env True False Never_returns)),
               Print (''Error: data.yaml not found at ''
                      @ quoted (DATA_YAML_PATH (example_env True False Never_returns)) @ ''.''),
               Print ''Please verify the DATA_YAML_PATH variable in this script.'']"
    by blast+
  have f: "train_model (example_env True False Never_returns) =
       (banner (example_env True False Never_returns) @
        [Check_exists ''yolov8n.pt'', Check_exists example_data_yaml,
         Print (''Error: data.yaml not found at '' @ quoted example_data_yaml @ ''.''),
         Print ''Please verify the DATA_YAML_PATH variable in this script.''],
        Returned_None)"
    using d e by (simp add: prod_eq_iff example_DATA_YAML_PATH BASE_MODEL_NAME_def)
  show ?thesis
    using a b c f by blast
qed

text \<open>
  C4. If the base model does not exist at \<^verbatim>\<open>yolov8n.pt\<close>, \<open>train_model\<close> makes no call
  into the training library: after the configuration it tests the path, prints the
  diagnostic of the missing base model (with the working directory) and the advice,
  and returns.
\<close>

theorem train_model_base_model_missing:
  assumes "\<not> path_exists env BASE_MODEL_NAME"
  shows "train_model env =
           (banner env @
            [Check_exists ''yolov8n.pt'',
             Print (''Error: Base model '' @ quoted ''yolov8n.pt''
                    @ '' not found in the current directory ('' @ getcwd env @ '').''),
             Print ''Please make sure the .pt file is in the same directory as this script, or update BASE_MODEL_NAME.''],
            Returned_None)
         \<and> filter library_call (fst (train_model env)) = []"
  using assms
  by (simp add: train_model_no_base no_call_banner base_model_missing_def BASE_MODEL_NAME_def)

theorem train_model_base_model_missing_witness:
  "\<not> path_exists (example_env False True Never_returns) BASE_MODEL_NAME
   \<and> train_model (example_env False True Never_returns) =
       ([Print ''Starting training with the following configuration:'',
         Print ''  Data YAML: /home/user/AutoDesktopVisionApi/../AutoDesktopApplication/UI_Element_Dataset/data.yaml'',
         Print ''  Base Model: yolov8n.pt'',
         Print ''  Epochs: 50'',
         Print ''  Batch Size: 8'',
         Print ''  Image Size: 640'',
         Print ''  Project: UI_Element_Detection'',
         Print ''  Experiment: run1'',
         Print ''  Device: cpu'',
         Check_exists ''yolov8n.pt'',
         Print (''Error: Base model '' @ quoted ''yolov8n.pt''
                @ '' not found in the current directory (/home/user/AutoDesktopVisionApi).''),
         Print ''Please make sure the .pt file is in the same directory as this script, or update BASE_MODEL_NAME.''],
        Returned_None)
   \<and> filter library_call (fst (train_model (example_env False True Never_returns))) = []"
proof -
  have a: "\<not> path_exists (example_env False True Never_returns) BASE_MODEL_NAME"
    by (simp add: example_path_exists)
  have "getcwd (example_env False True Never_returns) = ''/home/user/AutoDesktopVisionApi''"
    by (simp add: example_env_def example_dir_def)
  then show ?thesis
    using a train_model_base_model_missing [OF a]
    by (simp add: example_banner)
qed

text \<open>
  C5. The device is a function of the two probes alone: \<^verbatim>\<open>cuda\<close> if CUDA is
  available, otherwise \<^verbatim>\<open>mps\<close> if the Apple-silicon backend is available, otherwise
  \<^verbatim>\<open>cpu\<close>; two surroundings that agree on the probes get the same device, and it is
  the device handed to the training.
\<close>

theorem DEVICE_preference:
  "(cuda_is_available env \<longrightarrow> DEVICE env = ''cuda'')
   \<and> (\<not> cuda_is_available env \<and> mps_is_available env \<longrightarrow> DEVICE env = ''mps'')
   \<and> (\<not> cuda_is_available env \<and> \<not> mps_is_available env \<longrightarrow> DEVICE env = ''cpu'')
   \<and> (cuda_is_available env' = cuda_is_available env
        \<and> mps_is_available env' = mps_is_available env \<longrightarrow> DEVICE env' = DEVICE env)
   \<and> device (training_call env) = DEVICE env"
  by (simp add: DEVICE_def training_call_def)

theorem DEVICE_preference_witness:
  "DEVICE ((example_env True True Never_returns)
             \<lparr>cuda_is_available := True, mps_is_available := True\<rparr>) = ''cuda''
   \<and> DEVICE ((example_env True True Never_returns)\<lparr>mps_is_available := True\<rparr>) = ''mps''
   \<and> DEVICE (example_env True True Never_returns) = ''cpu''
   \<and> DEVICE (example_env False False (Raises cuda_oom)) = DEVICE (example_env True True Never_returns)"
  using
    DEVICE_preference [of "(example_env True True Never_returns)
             \<lparr>cuda_is_available := True, mps_is_available := True\<rparr>"
        "example_env True True Never_returns"]
    DEVICE_preference [of "(example_env True True Never_returns)\<lparr>mps_is_available := True\<rparr>"
        "example_env True True Never_returns"]
    DEVICE_preference [of "example_env True True Never_returns"
        "example_env False False (Raises cuda_oom)"]
  by (simp add: example_env_def)




text \<open>
  C7. Training only follows two passed checks. If a run of \<open>train_model\<close> calls the
  training at all, then the base model and the dataset descriptor both existed when
  they were tested, the call carries the configured arguments, and the run starts
  with the configuration, the two tests in their order, the loading of the base
  model and then the training call. If a check fails, the run makes no call into the
  training library and \<open>train_model\<close> returns: the failure is final.
\<close>

theorem train_model_trains_after_checks:
  "(Train a \<in> set (fst (train_model env)) \<longrightarrow>
      path_exists env BASE_MODEL_NAME \<and> path_exists env (DATA_YAML_PATH env)
      \<and> a = training_call env
      \<and> (\<exists>rest. fst (train_model env) =
            banner env @
            [Check_exists BASE_MODEL_NAME, Check_exists (DATA_YAML_PATH env),
             Load_model BASE_MODEL_NAME,
             Print (''Successfully loaded base model: '' @ BASE_MODEL_NAME),
             Print ''Starting model training...'',
             Train (training_call env)] @ rest))
   \<and> (\<not> (path_exists env BASE_MODEL_NAME \<and> path_exists env (DATA_YAML_PATH env)) \<longrightarrow>
        snd (train_model env) = Returned_None
        \<and> filter library_call (fst (train_model env)) = [])"
proof (intro conjI impI)
  assume tr: "Train a \<in> set (fst (train_model env))"
  show base: "path_exists env BASE_MODEL_NAME"
  proof (rule ccontr)
    assume "\<not> path_exists env BASE_MODEL_NAME"
    with tr show False
      by (simp add: train_model_no_base banner_def base_model_missing_def)
  qed
  show data: "path_exists env (DATA_YAML_PATH env)"
  proof (rule ccontr)
    assume "\<not> path_exists env (DATA_YAML_PATH env)"
    with tr base show False
      by (simp add: train_model_no_data banner_def data_yaml_missing_def)
  qed
  from train_model_checked [OF base data] obtain post where
    shape: "fst (train_model env) =
           banner env @ [Check_exists BASE_MODEL_NAME, Check_exists (DATA_YAML_PATH env)]
           @ fst (train_try env) @ post" and post: "\<forall>a. Train a \<notin> set post"
    by blast
  from tr shape post have "Train a \<in> set (fst (train_try env))"
    by (auto simp: Train_not_in_banner)
  from train_try_Train [OF this] obtain rest where
    a: "a = training_call env" and
    tt: "fst (train_try env) =
      [Load_model BASE_MODEL_NAME,
       Print (''Successfully loaded base model: '' @ BASE_MODEL_NAME),
       Print ''Starting model training...'',
       Train (training_call env)] @ rest"
    by blast
  show "a = training_call env" by (rule a)
  show "\<exists>rest. fst (train_model env) =
            banner env @
            [Check_exists BASE_MODEL_NAME, Check_exists (DATA_YAML_PATH env),
             Load_model BASE_MODEL_NAME,
             Print (''Successfully loaded base model: '' @ BASE_MODEL_NAME),
             Print ''Starting model training...'',
             Train (training_call env)] @ rest"
    using shape tt by simp
next
  assume n: "\<not> (path_exists env BASE_MODEL_NAME \<and> path_exists env (DATA_YAML_PATH env))"
  show "snd (train_model env) = Returned_None"
    using n by (auto simp: train_model_def)
  show "filter library_call (fst (train_model env)) = []"
  proof (cases "path_exists env BASE_MODEL_NAME")
    case True
    with n show ?thesis
      by (simp add: train_model_no_data no_call_banner no_call_data_yaml_missing)
  next
    case False
    then show ?thesis
      by (simp add: train_model_no_base no_call_banner no_call_base_model_missing)
  qed
qed

theorem train_model_trains_after_checks_witness:
  "Train (training_call (example_env True True (Returns example_results)))
      \<in> set (fst (train_model (example_env True True (Returns example_results))))
   \<and> path_exists (example_env True True (Returns example_results)) BASE_MODEL_NAME
   \<and> path_exists (example_env True True (Returns example_results))
        (DATA_YAML_PATH (example_env True True (Returns example_results)))
   \<and> \<not> (path_exists (example_env True False (Returns example_results)) BASE_MODEL_NAME
         \<and> path_exists (example_env True False (Returns example_results))
             (DATA_YAML_PATH (example_env True False (Returns example_results))))
   \<and> snd (train_model (example_env True False (Returns example_results))) = Returned_None
   \<and> filter library_call (fst (train_model (example_env True False (Returns example_results)))) = []"
proof -
  have a: "Train (training_call (example_env True True (Returns example_results)))
      \<in> set (fst (train_model (example_env True True (Returns example_results))))"
    by (simp add: train_model_def train_try_def example_path_exists example_DATA_YAML_PATH
        example_YOLO Let_def)
  have b: "\<not> (path_exists (example_env True False (Returns example_results)) BASE_MODEL_NAME
         \<and> path_exists (example_env True False (Returns example_results))
             (DATA_YAML_PATH (example_env True False (Returns example_results))))"
    by (simp add: example_path_exists example_DATA_YAML_PATH)
  show ?thesis
    using a b
      train_model_trains_after_checks
        [of "training_call (example_env True True (Returns example_results))"
            "example_env True True (Returns example_results)"]
      train_model_trains_after_checks
        [of "training_call (example_env True False (Returns example_results))"
            "example_env True False (Returns example_results)"]
    by simp
qed

text \<open>
  C9. The base model is tested first, and the first failure ends the run. If the
  base model is missing, and so also when both files are missing, the run is the
  configuration, the test of the base model and its diagnostic: the path of the
  dataset descriptor is never tested and no line of its diagnostic is printed. If
  the base model is there, the test of the dataset descriptor follows that of the
  base model.
\<close>

theorem train_model_base_model_first:
  "(\<not> path_exists env BASE_MODEL_NAME \<longrightarrow>
      train_model env =
        (banner env @ [Check_exists BASE_MODEL_NAME] @ base_model_missing env, Returned_None)
      \<and> Check_exists (DATA_YAML_PATH env) \<notin> set (fst (train_model env))
      \<and> set (data_yaml_missing env) \<inter> set (fst (train_model env)) = {})
   \<and> (path_exists env BASE_MODEL_NAME \<longrightarrow>
      (\<exists>rest. fst (train_model env) =
         banner env @ [Check_exists BASE_MODEL_NAME, Check_exists (DATA_YAML_PATH env)] @ rest))"
proof (intro conjI impI)
  assume a: "\<not> path_exists env BASE_MODEL_NAME"
  then show "train_model env =
        (banner env @ [Check_exists BASE_MODEL_NAME] @ base_model_missing env, Returned_None)"
    by (rule train_model_no_base)
  show "Check_exists (DATA_YAML_PATH env) \<notin> set (fst (train_model env))"
    using a DATA_YAML_PATH_not_BASE_MODEL_NAME [of env]
    by (auto simp: train_model_no_base banner_def base_model_missing_def)
  show "set (data_yaml_missing env) \<inter> set (fst (train_model env)) = {}"
    using a
    by (simp add: train_model_no_base banner_def base_model_missing_def data_yaml_missing_def
        BASE_MODEL_NAME_def)
next
  assume "path_exists env BASE_MODEL_NAME"
  then show "\<exists>rest. fst (train_model env) =
         banner env @ [Check_exists BASE_MODEL_NAME, Check_exists (DATA_YAML_PATH env)] @ rest"
    by (simp add: train_model_def Let_def split: prod.splits call_result.splits)
qed

theorem train_model_base_model_first_witness:
  "\<not> path_exists (example_env False False (Returns example_results)) BASE_MODEL_NAME
   \<and> \<not> path_exists (example_env False False (Returns example_results))
         (DATA_YAML_PATH (example_env False False (Returns example_results)))
   \<and> fst (train_model (example_env False False (Returns example_results))) =
       banner (example_env False False (Returns example_results)) @
       [Check_exists ''yolov8n.pt'',
        Print (''Error: Base model '' @ quoted ''yolov8n.pt''
               @ '' not found in the current directory (/home/user/AutoDesktopVisionApi).''),
        Print ''Please make sure the .pt file is in the same directory as this script, or update BASE_MODEL_NAME.'']
   \<and> Check_exists example_data_yaml
        \<notin> set (fst (train_model (example_env False False (Returns example_results))))
   \<and> path_exists (example_env True False (Returns example_results)) BASE_MODEL_NAME
   \<and> (\<exists>rest. fst (train_model (example_env True False (Returns example_results))) =
         banner (example_env True False (Returns example_results)) @
         [Check_exists ''yolov8n.pt'', Check_exists example_data_yaml] @ rest)"
proof -
  have a: "\<not> path_exists (example_env False False (Returns example_results)) BASE_MODEL_NAME"
    by (simp add: example_path_exists)
  have b: "\<not> path_exists (example_env False False (Returns example_results))
         (DATA_YAML_PATH (example_env False False (Returns example_results)))"
    by (simp add: example_path_exists example_DATA_YAML_PATH)
  have c: "path_exists (example_env True False (Returns example_results)) BASE_MODEL_NAME"
    by (simp add: example_path_exists)
  have d: "getcwd (example_env False False (Returns example_results))
             = ''/home/user/AutoDesktopVisionApi''"
    by (simp add: example_env_def example_dir_def)
  from a train_model_base_model_first [of "example_env False False (Returns example_results)"]
  have e: "train_model (example_env False False (Returns example_results)) =
        (banner (example_env False False (Returns example_results))
         @ [Check_exists BASE_MODEL_NAME]
         @ base_model_missing (example_env False False (Returns example_results)),
         Returned_None)"
    and f: "Check_exists (DATA_YAML_PATH (example_env False False (Returns example_results)))
        \<notin> set (fst (train_model (example_env False False (Returns example_results))))"
    by blast+
  from c train_model_base_model_first [of "example_env True False (Returns example_results)"]
  have g: "\<exists>rest. fst (train_model (example_env True False (Returns example_results))) =
         banner (example_env True False (Returns example_results)) @
         [Check_exists BASE_MODEL_NAME,
          Check_exists (DATA_YAML_PATH (example_env True False (Returns example_results)))]
         @ rest"
    by blast
  have h: "fst (train_model (example_env False False (Returns example_results))) =
       banner (example_env False False (Returns example_results)) @
       [Check_exists ''yolov8n.pt'',
        Print (''Error: Base model '' @ quoted ''yolov8n.pt''
               @ '' not found in the current directory (/home/user/AutoDesktopVisionApi).''),
        Print ''Please make sure the .pt file is in the same directory as this script, or update BASE_MODEL_NAME.'']"
    unfolding e by (simp add: base_model_missing_def BASE_MODEL_NAME_def d)
  have i: "Check_exists example_data_yaml
        \<notin> set (fst (train_model (example_env False False (Returns example_results))))"
    using f by (simp add: example_DATA_YAML_PATH)
  have j: "\<exists>rest. fst (train_model (example_env True False (Returns example_results))) =
         banner (example_env True False (Returns example_results)) @
         [Check_exists ''yolov8n.pt'', Check_exists example_data_yaml] @ rest"
    using g by (simp only: example_DATA_YAML_PATH BASE_MODEL_NAME_def)
  show ?thesis
    using a b c h i j by blast
qed

end
